theory Spec2Isabelle
  imports Main
begin

section \<open>JavaScript values and string primitives\<close>

text \<open>
  A JavaScript string is modelled as a \<^typ>\<open>string\<close>, each \<^typ>\<open>char\<close> standing for one
  code unit. A value that may be \<^verbatim>\<open>undefined\<close> or \<^verbatim>\<open>null\<close> is an option. The string
  methods below are the ones the sources call, under their own names
  (\<^verbatim>\<open>includes\<close> is written \<open>includes_str\<close>).
\<close>

text \<open>Truthiness of a string-or-undefined value: defined and not the empty string.\<close>

definition truthy :: "string option \<Rightarrow> bool" where
  "truthy v = (case v of None \<Rightarrow> False | Some s \<Rightarrow> s \<noteq> [])"

text \<open>\<^verbatim>\<open>a || b\<close> on strings: the left operand when it is truthy, else the right one.\<close>

definition or_else :: "string option \<Rightarrow> string \<Rightarrow> string" where
  "or_else v d = (case v of None \<Rightarrow> d | Some s \<Rightarrow> (if s = [] then d else s))"

text \<open>The rendering of a value inside a template literal.\<close>

definition toStr :: "string option \<Rightarrow> string" where
  "toStr v = (case v of None \<Rightarrow> ''undefined'' | Some s \<Rightarrow> s)"

fun startsWith :: "string \<Rightarrow> string \<Rightarrow> bool" where
  "startsWith s [] = True"
| "startsWith [] (p # ps) = False"
| "startsWith (c # cs) (p # ps) = (c = p \<and> startsWith cs ps)"

fun indexOf :: "string \<Rightarrow> string \<Rightarrow> nat option" where
  "indexOf [] p = (if p = [] then Some 0 else None)"
| "indexOf (c # cs) p =
     (if startsWith (c # cs) p then Some 0 else map_option Suc (indexOf cs p))"

definition includes_str :: "string \<Rightarrow> string \<Rightarrow> bool" where
  "includes_str s p = (indexOf s p \<noteq> None)"

text \<open>
  \<^verbatim>\<open>s.replace(pat, rep)\<close> with a string pattern replaces the first occurrence only.
  (The source's only replacement text is the empty string, so the \<^verbatim>\<open>$\<close> patterns
  of replacement texts play no role.)
\<close>

definition replace :: "string \<Rightarrow> string \<Rightarrow> string \<Rightarrow> string" where
  "replace s pat rep =
     (case indexOf s pat of
        None \<Rightarrow> s
      | Some i \<Rightarrow> take i s @ rep @ drop (i + length pat) s)"

text \<open>
  \<^verbatim>\<open>s.split(sep)\<close>: the pieces between the successive occurrences of the separator,
  searched from left to right; with the empty separator, the single code units.
\<close>

function split :: "string \<Rightarrow> string \<Rightarrow> string list" where
  "split s sep =
     (if sep = [] then map (\<lambda>c. [c]) s
      else (case indexOf s sep of
              None \<Rightarrow> [s]
            | Some i \<Rightarrow> take i s # split (drop (i + length sep) s) sep))"
  by pat_completeness auto
termination
proof (relation "measure (\<lambda>(s, sep). length s)")
  show "wf (measure (\<lambda>(s, sep). length s))" by simp
next
  fix s sep :: string and i :: nat
  assume sep: "sep \<noteq> []" and idx: "indexOf s sep = Some i"
  have sw: "startsWith t q \<Longrightarrow> length q \<le> length t" for t q
    by (induction t q rule: startsWith.induct) auto
  have "indexOf t sep = Some j \<Longrightarrow> j + length sep \<le> length t" for t j
    by (induction t arbitrary: j) (auto split: if_splits dest: sw)
  from this [OF idx] sep show "((drop (i + length sep) s, sep), (s, sep)) \<in> measure (\<lambda>(s, sep). length s)"
    by (cases sep) auto
qed

declare split.simps [simp del]

text \<open>\<^verbatim>\<open>parts.join(sep)\<close>.\<close>

fun join :: "string list \<Rightarrow> string \<Rightarrow> string" where
  "join [] sep = []"
| "join [x] sep = x"
| "join (x # y # ys) sep = x @ sep @ join (y # ys) sep"

text \<open>\<^verbatim>\<open>s.substring(a, b)\<close>: the code units from \<open>min a b\<close> up to, not including, \<open>max a b\<close>.\<close>

definition substring :: "string \<Rightarrow> nat \<Rightarrow> nat \<Rightarrow> string" where
  "substring s a b = take (max a b - min a b) (drop (min a b) s)"

section \<open>The ProductImage model\<close>

text \<open>
  The attributes of a \<^verbatim>\<open>ProductImage\<close> instance. An attribute that is not set is \<open>None\<close>.
\<close>

record product_image =
  image_id :: "nat option"
  product_id :: "nat option"
  s3_key :: "string option"
  url :: "string option"
  alt :: "string option"
  position :: "int option"
  width :: "int option"
  height :: "int option"
  size_variant :: "string option"
  file_size :: "int option"
  content_type :: "string option"
  image_hash :: "string option"

text \<open>\<^verbatim>\<open>isPrimary()\<close>: \<^verbatim>\<open>this.position === 0\<close>.\<close>

definition isPrimary :: "product_image \<Rightarrow> bool" where
  "isPrimary this = (position this = Some 0)"

text \<open>
  The getter \<^verbatim>\<open>cdn_url\<close>. Its first argument is the value of the environment variable
  \<^verbatim>\<open>STORAGE_SERVER_BASE_URL\<close>. The result is undefined (\<open>None\<close>) only where the getter
  returns an unset \<^verbatim>\<open>this.url\<close>.
\<close>

definition cdn_url :: "string option \<Rightarrow> product_image \<Rightarrow> string option" where
  "cdn_url STORAGE_SERVER_BASE_URL this =
     (if truthy (url this)
         \<and> (startsWith (the (url this)) ''http://'' \<or> startsWith (the (url this)) ''https://'')
         \<and> (includes_str (the (url this)) ''via.placeholder.com''
            \<or> includes_str (the (url this)) ''placeholder.com''
            \<or> includes_str (the (url this)) ''picsum.photos''
            \<or> includes_str (the (url this)) ''unsplash.com''
            \<or> includes_str (the (url this)) ''loremflickr.com'')
      then url this
      else if truthy (url this)
         \<and> (startsWith (the (url this)) ''http://'' \<or> startsWith (the (url this)) ''https://'')
         \<and> (includes_str (the (url this)) ''b-cdn.net''
            \<or> includes_str (the (url this)) ''bunnycdn.com'')
      then url this
      else if truthy (s3_key this)
      then (let bunnyCDNUrl = or_else STORAGE_SERVER_BASE_URL ''https://prestious.b-cdn.net'';
                key = the (s3_key this);
                imagePath =
                  (if includes_str key ''amazonaws.com/''
                   then (let urlParts = split key ''amazonaws.com/''
                         in if length urlParts > 1 then urlParts ! 1 else key)
                   else if includes_str key ''s3://''
                   then join (drop 1 (split (replace key ''s3://'' '''') ''/'')) ''/''
                   else key)
            in Some (bunnyCDNUrl @ ''/'' @ imagePath))
      else url this)"

text \<open>\<^verbatim>\<open>withUrl(r, u)\<close> of the specification: the record with its stored url replaced.\<close>

definition withUrl :: "product_image \<Rightarrow> string option \<Rightarrow> product_image" where
  "withUrl r u = r\<lparr>url := u\<rparr>"

section \<open>The image metadata store\<close>

record product =
  prod_id :: nat
  title :: string

text \<open>
  The tables \<^verbatim>\<open>product_images\<close> (rows in insertion order) and \<^verbatim>\<open>products\<close>, and the
  counter behind the auto-incremented primary key of \<^verbatim>\<open>product_images\<close>.
\<close>

record database =
  images :: "product_image list"
  products :: "product list"
  next_image_id :: nat

text \<open>\<^verbatim>\<open>Product.findByPk(id)\<close>.\<close>

definition findByPk :: "database \<Rightarrow> nat \<Rightarrow> product option" where
  "findByPk d pid = find (\<lambda>p. prod_id p = pid) (products d)"

text \<open>
  \<^verbatim>\<open>ProductImage.max('position', { where: { product_id } })\<close>: the greatest position among
  the rows of that product, \<^verbatim>\<open>null\<close> when it has no row.
\<close>

definition max_position :: "database \<Rightarrow> nat option \<Rightarrow> int option" where
  "max_position d pid =
     (case List.map_filter position (filter (\<lambda>r. product_id r = pid) (images d)) of
        [] \<Rightarrow> None
      | p # ps \<Rightarrow> Some (fold max ps p))"

text \<open>The hook \<^verbatim>\<open>beforeValidate\<close>: the alt text is derived from the product's title.\<close>

definition beforeValidate :: "database \<Rightarrow> product_image \<Rightarrow> product_image" where
  "beforeValidate d img =
     (if \<not> truthy (alt img) \<and> product_id img \<noteq> None \<and> product_id img \<noteq> Some 0
      then (case findByPk d (the (product_id img)) of
              Some product \<Rightarrow> img\<lparr>alt := Some (title product @ '' - Product Image'')\<rparr>
            | None \<Rightarrow> img)
      else img)"

text \<open>
  The hook \<^verbatim>\<open>beforeCreate\<close>: \<^verbatim>\<open>image.position = (maxPosition || -1) + 1\<close> when the position
  is not set. The operator \<^verbatim>\<open>||\<close> yields its right operand when the left one is
  \<^verbatim>\<open>null\<close> or \<^verbatim>\<open>0\<close>.
\<close>

definition beforeCreate :: "database \<Rightarrow> product_image \<Rightarrow> product_image" where
  "beforeCreate d img =
     (if position img = None
      then (let maxPosition = max_position d (product_id img)
            in img\<lparr>position :=
                 Some ((case maxPosition of
                          None \<Rightarrow> - 1
                        | Some m \<Rightarrow> (if m = 0 then - 1 else m)) + 1)\<rparr>)
      else img)"

text \<open>
  The attribute defaults of the model definition (\<^verbatim>\<open>defaultValue\<close>), which the ORM fills
  in when an instance is built with the attribute left out.
\<close>

definition build :: "product_image \<Rightarrow> product_image" where
  "build values =
     values\<lparr>position := (case position values of None \<Rightarrow> Some 0 | Some p \<Rightarrow> Some p),
            size_variant := (case size_variant values of
                               None \<Rightarrow> Some ''original''
                             | Some v \<Rightarrow> Some v)\<rparr>"

text \<open>
  The attribute validators of the model definition. The validator \<^verbatim>\<open>isUrl\<close> belongs to
  the ORM's validation library and is a parameter.
\<close>

definition validate :: "(string \<Rightarrow> bool) \<Rightarrow> product_image \<Rightarrow> bool" where
  "validate isUrl img =
     (product_id img \<noteq> None
      \<and> (case s3_key img of None \<Rightarrow> False | Some k \<Rightarrow> 1 \<le> length k \<and> length k \<le> 512)
      \<and> (case url img of None \<Rightarrow> False | Some u \<Rightarrow> 1 \<le> length u \<and> length u \<le> 512 \<and> isUrl u)
      \<and> (case alt img of None \<Rightarrow> True | Some a \<Rightarrow> length a \<le> 160)
      \<and> (case position img of None \<Rightarrow> False | Some p \<Rightarrow> 0 \<le> p)
      \<and> (case width img of None \<Rightarrow> True | Some x \<Rightarrow> 1 \<le> x)
      \<and> (case height img of None \<Rightarrow> True | Some x \<Rightarrow> 1 \<le> x)
      \<and> (case size_variant img of
            None \<Rightarrow> False
          | Some v \<Rightarrow> v \<in> set [''original'', ''thumb'', ''medium'', ''large''])
      \<and> (case file_size img of None \<Rightarrow> True | Some x \<Rightarrow> 1 \<le> x)
      \<and> (case content_type img of None \<Rightarrow> True | Some t \<Rightarrow> 1 \<le> length t \<and> length t \<le> 100)
      \<and> (case image_hash img of None \<Rightarrow> True | Some h \<Rightarrow> length h = 64))"

text \<open>
  \<^verbatim>\<open>ProductImage.create(values)\<close>: the instance is built with the defaults, then
  \<^verbatim>\<open>beforeValidate\<close>, the validators, \<^verbatim>\<open>beforeCreate\<close> and the insertion follow. The
  insertion fails when the referenced product does not exist.
\<close>

datatype create_error = ValidationError | ForeignKeyConstraintError

definition create ::
  "(string \<Rightarrow> bool) \<Rightarrow> database \<Rightarrow> product_image \<Rightarrow> (create_error + product_image) \<times> database"
where
  "create isUrl d values =
     (let img1 = beforeValidate d (build values) in
      if \<not> validate isUrl img1 then (Inl ValidationError, d)
      else (let img2 = beforeCreate d img1 in
            if findByPk d (the (product_id img2)) = None
            then (Inl ForeignKeyConstraintError, d)
            else (let row = img2\<lparr>image_id := Some (next_image_id d)\<rparr>
                  in (Inr row, d\<lparr>images := images d @ [row],
                                 next_image_id := Suc (next_image_id d)\<rparr>))))"

text \<open>Creating several images one after the other; the first failure ends the run.\<close>

fun create_all ::
  "(string \<Rightarrow> bool) \<Rightarrow> database \<Rightarrow> product_image list
     \<Rightarrow> (create_error + product_image list) \<times> database"
where
  "create_all isUrl d [] = (Inr [], d)"
| "create_all isUrl d (v # vs) =
     (case create isUrl d v of
        (Inl e, d') \<Rightarrow> (Inl e, d')
      | (Inr row, d') \<Rightarrow>
          (case create_all isUrl d' vs of
             (Inl e, d'') \<Rightarrow> (Inl e, d'')
           | (Inr rows, d'') \<Rightarrow> (Inr (row # rows), d'')))"

section \<open>The storage service\<close>

text \<open>
  The fields of \<^verbatim>\<open>BunnyCDNService\<close>, read in the constructor from the environment
  variables \<^verbatim>\<open>STORAGE_URL\<close>, \<^verbatim>\<open>STORAGE_SERVER_BASE_URL\<close> and
  \<^verbatim>\<open>STORAGE_SERVER_ACCESS_KEY\<close>; an environment variable is a string or is undefined.
\<close>

record service =
  storageUrl :: "string option"
  serverBaseUrl :: "string option"
  accessKey :: "string option"

definition isConfigured :: "service \<Rightarrow> bool" where
  "isConfigured this =
     (truthy (storageUrl this) \<and> truthy (serverBaseUrl this) \<and> truthy (accessKey this))"

definition getPublicUrl :: "service \<Rightarrow> string \<Rightarrow> string" where
  "getPublicUrl this key =
     (if truthy (serverBaseUrl this) then toStr (serverBaseUrl this) @ ''/'' @ key
      else toStr (storageUrl this) @ ''/'' @ key)"

subsection \<open>Key generation\<close>

text \<open>The decimal rendering of a non-negative integer, as a template literal prints it.\<close>

fun dec :: "nat \<Rightarrow> string" where
  "dec n =
     (if n < 10 then [''0123456789'' ! n]
      else dec (n div 10) @ [''0123456789'' ! (n mod 10)])"

declare dec.simps [simp del]

text \<open>
  \<^verbatim>\<open>filename.replace(/\.[^/.]+$/, '')\<close>: the leftmost dot that is followed, up to the end
  of the string, by one or more code units other than \<^verbatim>\<open>/\<close> and \<^verbatim>\<open>.\<close> is removed
  together with what follows it.
\<close>

fun removeExtension :: "string \<Rightarrow> string" where
  "removeExtension [] = []"
| "removeExtension (c # cs) =
     (if c = CHR ''.'' \<and> cs \<noteq> [] \<and> list_all (\<lambda>x. x \<noteq> CHR ''/'' \<and> x \<noteq> CHR ''.'') cs
      then []
      else c # removeExtension cs)"

text \<open>The character class \<^verbatim>\<open>[a-zA-Z0-9-_]\<close>.\<close>

definition keyChar :: "char \<Rightarrow> bool" where
  "keyChar c =
     ((97 \<le> (of_char c :: nat) \<and> (of_char c :: nat) \<le> 122)
      \<or> (65 \<le> (of_char c :: nat) \<and> (of_char c :: nat) \<le> 90)
      \<or> (48 \<le> (of_char c :: nat) \<and> (of_char c :: nat) \<le> 57)
      \<or> c = CHR ''-'' \<or> c = CHR ''_'')"

text \<open>\<^verbatim>\<open>baseFilename.replace(/[^a-zA-Z0-9-_]/g, '_')\<close>.\<close>

definition sanitize :: "string \<Rightarrow> string" where
  "sanitize s = map (\<lambda>c. if keyChar c then c else CHR ''_'') s"

text \<open>
  \<^verbatim>\<open>generateProductImageKey(productId, size, extension, filename = null)\<close>. The two
  readings of the environment are arguments: \<open>now\<close> is the value of \<^verbatim>\<open>Date.now()\<close> and
  \<open>random36\<close> the string \<^verbatim>\<open>Math.random().toString(36)\<close>; the parameter \<^verbatim>\<open>size\<close> is
  written \<open>sz\<close>.
\<close>

definition generateProductImageKey ::
  "nat \<Rightarrow> string \<Rightarrow> nat \<Rightarrow> string \<Rightarrow> string \<Rightarrow> string option \<Rightarrow> string"
where
  "generateProductImageKey now random36 productId sz extension filename =
     (let timestamp = now;
          randomId = substring random36 2 8
      in if truthy filename
         then (let baseFilename = removeExtension (the filename);
                   sanitizedFilename = sanitize baseFilename
               in ''products/'' @ dec productId @ ''/images/'' @ sz @ ''/''
                    @ sanitizedFilename @ ''_'' @ dec timestamp @ ''_'' @ randomId
                    @ ''.'' @ extension)
         else ''products/'' @ dec productId @ ''/images/'' @ sz @ ''/image_''
                @ dec timestamp @ ''_'' @ randomId @ ''.'' @ extension)"

subsection \<open>The collaborators: the storage endpoint and the database\<close>

datatype http_method = GET | PUT | DELETE

record http_request =
  req_method :: http_method
  req_url :: string
  req_headers :: "(string \<times> string option) list"
  req_body :: "nat list"

text \<open>
  The HTTP client resolves with the status of a successful response, or rejects with an
  error that carries a message and, when a response arrived, its status and status text.
  A request that runs out of its time limit (the probe sets one of ten seconds) is a
  rejected request; the limit itself is not part of the request record.
\<close>

datatype http_response = Resolved nat | Rejected string "(nat \<times> string) option"

datatype db_statement = CountImages | CountProducts | FindAllImages | DestroyImages

text \<open>
  The state the programs act on: the database, and the statements and HTTP requests
  issued so far, oldest first.
\<close>

record world =
  db :: database
  statements :: "db_statement list"
  requests :: "http_request list"

text \<open>
  What the programs do not control: \<open>server\<close> is the answer of the storage endpoint to a
  request, given the requests before it; \<open>db_fault\<close> is the error, if any, that a
  database statement raises, given the statements before it.
\<close>

record collaborators =
  server :: "http_request list \<Rightarrow> http_request \<Rightarrow> http_response"
  db_fault :: "db_statement list \<Rightarrow> db_statement \<Rightarrow> string option"

definition axios :: "collaborators \<Rightarrow> world \<Rightarrow> http_request \<Rightarrow> http_response \<times> world" where
  "axios c w req = (server c (requests w) req, w\<lparr>requests := requests w @ [req]\<rparr>)"

definition query ::
  "collaborators \<Rightarrow> db_statement \<Rightarrow> (database \<Rightarrow> 'a \<times> database) \<Rightarrow> world
     \<Rightarrow> (string + 'a) \<times> world"
where
  "query c st run w =
     (case db_fault c (statements w) st of
        Some msg \<Rightarrow> (Inl msg, w\<lparr>statements := statements w @ [st]\<rparr>)
      | None \<Rightarrow>
          (let (r, d) = run (db w)
           in (Inr r, w\<lparr>db := d, statements := statements w @ [st]\<rparr>)))"

subsection \<open>Upload, delete and probe\<close>

record upload_result =
  up_key :: string
  up_url :: string
  up_size :: nat
  up_contentType :: string

text \<open>
  \<^verbatim>\<open>uploadFile\<close>, \<^verbatim>\<open>deleteFile\<close>: the result is \<open>Inl\<close> the message of the thrown error.
  The configuration check throws outside the \<^verbatim>\<open>try\<close> block. (The form data that
  \<^verbatim>\<open>uploadFile\<close> builds is not sent and its parameter \<^verbatim>\<open>metadata\<close> is not read;
  logging is not part of the model.)
\<close>

definition uploadFile ::
  "collaborators \<Rightarrow> service \<Rightarrow> world \<Rightarrow> nat list \<Rightarrow> string \<Rightarrow> string
     \<Rightarrow> (string + upload_result) \<times> world"
where
  "uploadFile c this w fileBuffer key contentType =
     (if \<not> isConfigured this
      then (Inl ''Bunny CDN is not properly configured. Please check your environment variables.'', w)
      else (let uploadUrl = toStr (storageUrl this) @ ''/'' @ key
            in case axios c w
                    \<lparr>req_method = PUT, req_url = uploadUrl,
                     req_headers = [(''AccessKey'', accessKey this),
                                    (''Content-Type'', Some contentType),
                                    (''Cache-Control'', Some ''public, max-age=31536000'')],
                     req_body = fileBuffer\<rparr> of
                 (Resolved st, w') \<Rightarrow>
                   (Inr \<lparr>up_key = key, up_url = getPublicUrl this key,
                         up_size = length fileBuffer, up_contentType = contentType\<rparr>, w')
               | (Rejected msg resp, w') \<Rightarrow>
                   (Inl (''Bunny CDN upload failed: '' @ msg), w')))"

definition deleteFile ::
  "collaborators \<Rightarrow> service \<Rightarrow> world \<Rightarrow> string \<Rightarrow> (string + bool) \<times> world"
where
  "deleteFile c this w key =
     (if \<not> isConfigured this
      then (Inl ''Bunny CDN is not properly configured. Please check your environment variables.'', w)
      else (let deleteUrl = toStr (storageUrl this) @ ''/'' @ key
            in case axios c w
                    \<lparr>req_method = DELETE, req_url = deleteUrl,
                     req_headers = [(''AccessKey'', accessKey this)],
                     req_body = []\<rparr> of
                 (Resolved st, w') \<Rightarrow> (Inr True, w')
               | (Rejected msg resp, w') \<Rightarrow>
                   (Inl (''Bunny CDN delete failed: '' @ msg), w')))"

record delete_results =
  successful :: "string list"
  failed :: "(string \<times> string) list"

text \<open>
  \<^verbatim>\<open>deleteFiles\<close>: the loop \<^verbatim>\<open>for (const key of keys)\<close>, with the results object and
  the world as its state.
\<close>

fun deleteFiles_loop ::
  "collaborators \<Rightarrow> service \<Rightarrow> string list \<Rightarrow> delete_results \<times> world
     \<Rightarrow> delete_results \<times> world"
where
  "deleteFiles_loop c this [] (results, w) = (results, w)"
| "deleteFiles_loop c this (key # keys) (results, w) =
     (case deleteFile c this w key of
        (Inr ok, w') \<Rightarrow>
          deleteFiles_loop c this keys
            (results\<lparr>successful := successful results @ [key]\<rparr>, w')
      | (Inl message, w') \<Rightarrow>
          deleteFiles_loop c this keys
            (results\<lparr>failed := failed results @ [(key, message)]\<rparr>, w'))"

definition deleteFiles ::
  "collaborators \<Rightarrow> service \<Rightarrow> world \<Rightarrow> string list \<Rightarrow> delete_results \<times> world"
where
  "deleteFiles c this w keys =
     deleteFiles_loop c this keys (\<lparr>successful = [], failed = []\<rparr>, w)"

record connection_result =
  success :: bool
  conn_error :: "string option"
  conn_status :: "nat option"
  conn_statusText :: "string option"
  conn_message :: "string option"

definition testConnection ::
  "collaborators \<Rightarrow> service \<Rightarrow> world \<Rightarrow> connection_result \<times> world"
where
  "testConnection c this w =
     (if \<not> isConfigured this
      then (\<lparr>success = False, conn_error = Some ''Bunny CDN is not properly configured'',
             conn_status = None, conn_statusText = None, conn_message = None\<rparr>, w)
      else (let testUrl = toStr (storageUrl this) @ ''/''
            in case axios c w
                    \<lparr>req_method = GET, req_url = testUrl,
                     req_headers = [(''AccessKey'', accessKey this)],
                     req_body = []\<rparr> of
                 (Resolved st, w') \<Rightarrow>
                   (\<lparr>success = True, conn_error = None, conn_status = Some st,
                     conn_statusText = None,
                     conn_message = Some ''Connection to Bunny CDN successful''\<rparr>, w')
               | (Rejected msg resp, w') \<Rightarrow>
                   (\<lparr>success = False, conn_error = Some msg,
                     conn_status = map_option fst resp,
                     conn_statusText = map_option snd resp,
                     conn_message = None\<rparr>, w')))"

text \<open>
  The sequence of single deletions that the specification describes for \<^verbatim>\<open>deleteMany\<close>:
  one call of \<^verbatim>\<open>deleteFile\<close> per key, in the order of the keys, each paired with its
  outcome.
\<close>

fun attempts ::
  "collaborators \<Rightarrow> service \<Rightarrow> world \<Rightarrow> string list \<Rightarrow> (string \<times> (string + bool)) list"
where
  "attempts c this w [] = []"
| "attempts c this w (key # keys) =
     (key, fst (deleteFile c this w key))
       # attempts c this (snd (deleteFile c this w key)) keys"

section \<open>The migration job\<close>

text \<open>The statements of the script against the two models.\<close>

definition ProductImage_count :: "collaborators \<Rightarrow> world \<Rightarrow> (string + nat) \<times> world" where
  "ProductImage_count c = query c CountImages (\<lambda>d. (length (images d), d))"

text \<open>
  \<^verbatim>\<open>Product.count\<close> with the images included as a required association: the rows of the
  inner join of the two tables.
\<close>

definition Product_count :: "collaborators \<Rightarrow> world \<Rightarrow> (string + nat) \<times> world" where
  "Product_count c =
     query c CountProducts
       (\<lambda>d. (length (concat (map (\<lambda>p. filter (\<lambda>r. product_id r = Some (prod_id p)) (images d))
                                    (products d))), d))"

definition ProductImage_findAll ::
  "collaborators \<Rightarrow> nat \<Rightarrow> world \<Rightarrow> (string + (product_image \<times> product option) list) \<times> world"
where
  "ProductImage_findAll c limit =
     query c FindAllImages
       (\<lambda>d. (map (\<lambda>r. (r, case product_id r of None \<Rightarrow> None | Some pid \<Rightarrow> findByPk d pid))
                  (take limit (images d)), d))"

text \<open>\<^verbatim>\<open>ProductImage.destroy({ where: {}, force: true })\<close>: every row is deleted.\<close>

definition ProductImage_destroy :: "collaborators \<Rightarrow> world \<Rightarrow> (string + nat) \<times> world" where
  "ProductImage_destroy c =
     query c DestroyImages (\<lambda>d. (length (images d), d\<lparr>images := []\<rparr>))"

text \<open>
  How the script ends: it returns, or the \<^verbatim>\<open>catch\<close> block ends the process with
  \<^verbatim>\<open>process.exit(1)\<close> after an error with the given message.
\<close>

datatype outcome = Returned | Exited nat string

text \<open>
  A statement inside the \<^verbatim>\<open>try\<close> block: an error ends the script in the \<^verbatim>\<open>catch\<close>
  block, a value is passed on to the rest of the block.
\<close>

definition attempt ::
  "(string + 'a) \<times> world \<Rightarrow> ('a \<Rightarrow> world \<Rightarrow> outcome \<times> world) \<Rightarrow> outcome \<times> world"
where
  "attempt m rest = (case m of (Inl message, w) \<Rightarrow> (Exited 1 message, w) | (Inr x, w) \<Rightarrow> rest x w)"

text \<open>The 1x1 pixel PNG of the upload test, decoded from its base64 text.\<close>

definition testImageBuffer :: "nat list" where
  "testImageBuffer =
     [137, 80, 78, 71, 13, 10, 26, 10, 0, 0, 0, 13, 73, 72, 68, 82, 0, 0, 0, 1, 0, 0, 0, 1,
      8, 6, 0, 0, 0, 31, 21, 196, 137, 0, 0, 0, 13, 73, 68, 65, 84, 120, 218, 99, 100, 96,
      248, 95, 15, 0, 2, 135, 1, 128, 235, 71, 186, 146, 0, 0, 0, 0, 73, 69, 78, 68, 174,
      66, 96, 130]"

text \<open>
  \<^verbatim>\<open>migrateToBunnyCDN\<close>. Console output is not part of the model; the statements and
  requests the script issues are recorded in the world.
\<close>

definition migrateToBunnyCDN :: "collaborators \<Rightarrow> service \<Rightarrow> world \<Rightarrow> outcome \<times> world" where
  "migrateToBunnyCDN c bunnyCDNService w0 =
     (if \<not> isConfigured bunnyCDNService then (Returned, w0)
      else (let (connectionTest, w1) = testConnection c bunnyCDNService w0 in
        if \<not> success connectionTest then (Returned, w1)
        else
          attempt (ProductImage_count c w1) (\<lambda>totalImages w2.
          attempt (Product_count c w2) (\<lambda>productsWithImages w3.
          if totalImages = 0 then (Returned, w3)
          else
            attempt (ProductImage_findAll c 5 w3) (\<lambda>sampleImages w4.
            attempt (ProductImage_destroy c w4) (\<lambda>deletedCount w5.
            attempt (ProductImage_count c w5) (\<lambda>remainingImages w6.
            attempt (Product_count c w6) (\<lambda>productsWithImagesAfter w7.
            attempt (uploadFile c bunnyCDNService w7 testImageBuffer
                       ''migration-test/connection-test.png'' ''image/png'') (\<lambda>uploadResult w8.
            attempt (deleteFile c bunnyCDNService w8 ''migration-test/connection-test.png'')
              (\<lambda>deleted w9. (Returned, w9)))))))))))"

section \<open>Vocabulary of the properties and example inputs\<close>

text \<open>
  The first two steps of the resolver keep the stored url: it is an absolute HTTP(S) URL
  that names one of the placeholder hosts or one of the CDN hosts.
\<close>

definition kept_url :: "string option \<Rightarrow> bool" where
  "kept_url v =
     (case v of
        None \<Rightarrow> False
      | Some u \<Rightarrow>
          (startsWith u ''http://'' \<or> startsWith u ''https://'')
          \<and> (includes_str u ''via.placeholder.com'' \<or> includes_str u ''placeholder.com''
             \<or> includes_str u ''picsum.photos'' \<or> includes_str u ''unsplash.com''
             \<or> includes_str u ''loremflickr.com'' \<or> includes_str u ''b-cdn.net''
             \<or> includes_str u ''bunnycdn.com''))"

text \<open>A database with one product and no image, and the values of a new image of it.\<close>

definition fresh_db :: database where
  "fresh_db =
     \<lparr>images = [], products = [\<lparr>prod_id = 7, title = ''Lamp''\<rparr>], next_image_id = 1\<rparr>"

definition new_image :: "string \<Rightarrow> product_image" where
  "new_image k =
     \<lparr>image_id = None, product_id = Some 7, s3_key = Some k,
      url = Some (''https://prestious.b-cdn.net/'' @ k), alt = None, position = None,
      width = None, height = None, size_variant = None, file_size = None,
      content_type = None, image_hash = None\<rparr>"

text \<open>A stored image with the given key and url.\<close>

definition stored_image :: "string \<Rightarrow> string \<Rightarrow> product_image" where
  "stored_image k u =
     \<lparr>image_id = Some 1, product_id = Some 7, s3_key = Some k, url = Some u, alt = None,
      position = Some 0, width = None, height = None, size_variant = Some ''original'',
      file_size = None, content_type = None, image_hash = None\<rparr>"

definition example_service :: service where
  "example_service =
     \<lparr>storageUrl = Some ''https://storage.bunnycdn.com/shop'',
      serverBaseUrl = Some ''https://prestious.b-cdn.net'',
      accessKey = Some ''secret''\<rparr>"

text \<open>An endpoint that answers every request with status 401, beside a sound database.\<close>

definition unauthorized :: collaborators where
  "unauthorized =
     \<lparr>server = (\<lambda>h r. Rejected ''Request failed with status code 401''
                           (Some (401, ''Unauthorized''))),
      db_fault = (\<lambda>h st. None)\<rparr>"

text \<open>An endpoint that accepts every request but the deletion of the key \<open>b\<close>.\<close>

definition all_but_b :: collaborators where
  "all_but_b =
     \<lparr>server = (\<lambda>h r. if req_method r = DELETE
                           \<and> req_url r = ''https://storage.bunnycdn.com/shop/b''
                        then Rejected ''Request failed with status code 404''
                               (Some (404, ''Not Found''))
                        else Resolved 200),
      db_fault = (\<lambda>h st. None)\<rparr>"

definition empty_world :: world where
  "empty_world = \<lparr>db = fresh_db, statements = [], requests = []\<rparr>"

definition stocked_world :: world where
  "stocked_world =
     \<lparr>db = \<lparr>images = [stored_image ''a.png'' ''https://prestious.b-cdn.net/a.png''],
             products = [\<lparr>prod_id = 7, title = ''Lamp''\<rparr>], next_image_id = 2\<rparr>,
      statements = [], requests = []\<rparr>"

section \<open>Lemmas on the string primitives\<close>

lemma truthy_Some [simp]: "truthy (Some s) = (s \<noteq> [])"
  by (simp add: truthy_def)

lemma truthy_None [simp]: "truthy None = False"
  by (simp add: truthy_def)

lemma startsWith_nonempty: "startsWith s p \<Longrightarrow> p \<noteq> [] \<Longrightarrow> s \<noteq> []"
  by (cases s; cases p) auto

lemma startsWith_append: "startsWith (p @ s) p"
  by (induction p) auto

lemma startsWith_decomp: "startsWith s p \<Longrightarrow> s = p @ drop (length p) s"
  by (induction s p rule: startsWith.induct) auto

lemma indexOf_decomp:
  "indexOf s p = Some i \<Longrightarrow> s = take i s @ p @ drop (i + length p) s"
proof (induction s arbitrary: i)
  case Nil
  then show ?case by (simp split: if_splits)
next
  case (Cons c cs)
  show ?case
  proof (cases "startsWith (c # cs) p")
    case True
    with Cons.prems have "i = 0" by simp
    with startsWith_decomp [OF True] show ?thesis by simp
  next
    case False
    with Cons.prems obtain j where j: "indexOf cs p = Some j" and i: "i = Suc j"
      by auto
    from Cons.IH [OF j] i show ?thesis by simp
  qed
qed

lemma indexOf_prefix: "indexOf (p @ s) p = Some 0"
  by (cases "p @ s") (auto simp: startsWith_append dest: sym intro: startsWith_append)

lemma indexOf_first_char: "x \<notin> set b \<Longrightarrow> indexOf (b @ x # s) [x] = Some (length b)"
  by (induction b) auto

lemma includes_prefix: "includes_str (p @ s) p"
  by (simp add: includes_str_def indexOf_prefix)

lemma replace_prefix: "replace (p @ s) p [] = s"
  by (simp add: replace_def indexOf_prefix)

lemma split_nonempty: "sep \<noteq> [] \<Longrightarrow> split s sep \<noteq> []"
  by (subst split.simps) (simp split: option.splits)

lemma join_Cons: "xs \<noteq> [] \<Longrightarrow> join (x # xs) sep = x @ sep @ join xs sep"
  by (cases xs) auto

text \<open>Joining the pieces of a split with the separator gives the string back.\<close>

lemma join_split: "sep \<noteq> [] \<Longrightarrow> join (split s sep) sep = s"
proof (induction s sep rule: split.induct)
  case (1 s sep)
  show ?case
  proof (cases "indexOf s sep")
    case None
    with "1.prems" show ?thesis
      by (subst split.simps) simp
  next
    case (Some i)
    with "1.IH" "1.prems"
    have "join (split (drop (i + length sep) s) sep) sep = drop (i + length sep) s"
      by simp
    with Some "1.prems" indexOf_decomp [OF Some] show ?thesis
      by (subst split.simps) (simp add: join_Cons split_nonempty)
  qed
qed

lemma split_first: "x \<notin> set b \<Longrightarrow> split (b @ x # s) [x] = b # split s [x]"
  unfolding split.simps [of "b @ x # s"] by (simp add: indexOf_first_char)

lemma legacy_path:
  "x \<notin> set b \<Longrightarrow> join (drop 1 (split (replace (p @ b @ x # s) p []) [x])) [x] = s"
  by (simp add: replace_prefix split_first join_split)

section \<open>Properties of the URL resolver\<close>

text \<open>
  C2, as amended. For every record whose stored url is not kept by the first two steps of
  the resolver, and whose key has the form \<^verbatim>\<open>s3://bucket/path\<close> (the bucket holds no
  \<^verbatim>\<open>/\<close>) and does not contain \<^verbatim>\<open>amazonaws.com/\<close>, the resolver returns the CDN base URL,
  a single \<^verbatim>\<open>/\<close>, and the path that follows the bucket. The CDN base URL is the
  environment variable, or the built-in default when the variable is unset or empty.
\<close>

theorem cdn_url_legacy_s3:
  assumes key: "s3_key r = Some (''s3://'' @ bucket @ ''/'' @ path)"
    and bucket: "CHR ''/'' \<notin> set bucket"
    and aws: "\<not> includes_str (''s3://'' @ bucket @ ''/'' @ path) ''amazonaws.com/''"
    and url: "\<not> kept_url (url r)"
  shows "cdn_url base r
           = Some (or_else base ''https://prestious.b-cdn.net'' @ ''/'' @ path)"
proof -
  let ?k = "''s3://'' @ bucket @ ''/'' @ path"
  have inc: "includes_str ?k ''s3://''"
    by (rule includes_prefix)
  have path: "join (drop 1 (split (replace ?k ''s3://'' '''') ''/'')) ''/'' = path"
    using legacy_path [OF bucket, of "''s3://''" path] by simp
  have nk: "\<not> (truthy (url r)
         \<and> (startsWith (the (url r)) ''http://'' \<or> startsWith (the (url r)) ''https://'')
         \<and> (includes_str (the (url r)) ''via.placeholder.com''
            \<or> includes_str (the (url r)) ''placeholder.com''
            \<or> includes_str (the (url r)) ''picsum.photos''
            \<or> includes_str (the (url r)) ''unsplash.com''
            \<or> includes_str (the (url r)) ''loremflickr.com''))"
    and nq: "\<not> (truthy (url r)
         \<and> (startsWith (the (url r)) ''http://'' \<or> startsWith (the (url r)) ''https://'')
         \<and> (includes_str (the (url r)) ''b-cdn.net''
            \<or> includes_str (the (url r)) ''bunnycdn.com''))"
    using url by (auto simp: kept_url_def split: option.splits)
  have tk: "truthy (s3_key r)"
    by (simp add: key)
  show ?thesis
    unfolding cdn_url_def if_not_P [OF nk] if_not_P [OF nq] if_P [OF tk]
    using aws inc path by (simp add: key Let_def)
qed

theorem cdn_url_legacy_s3_witness:
  "cdn_url (Some ''https://cdn.example.com'')
     (stored_image ''s3://my-bucket/products/7/a.png'' ''https://old.example.com/a.png'')
   = Some ''https://cdn.example.com/products/7/a.png''"
proof -
  let ?r = "stored_image ''s3://my-bucket/products/7/a.png'' ''https://old.example.com/a.png''"
  have 1: "s3_key ?r = Some (''s3://'' @ ''my-bucket'' @ ''/'' @ ''products/7/a.png'')"
    by (simp add: stored_image_def)
  have 2: "CHR ''/'' \<notin> set ''my-bucket''"
    by simp
  have 3: "\<not> includes_str (''s3://'' @ ''my-bucket'' @ ''/'' @ ''products/7/a.png'')
               ''amazonaws.com/''"
    by (simp add: includes_str_def)
  have 4: "\<not> kept_url (url ?r)"
    by (simp add: stored_image_def kept_url_def includes_str_def)
  show ?thesis
    using cdn_url_legacy_s3 [OF 1 2 3 4, of "Some ''https://cdn.example.com''"]
    by (simp add: or_else_def)
qed

text \<open>
  The claim as stated fails: a record with a key of that form whose url names a
  placeholder host resolves to its url; a key of that form that contains
  \<^verbatim>\<open>amazonaws.com/\<close> resolves to what follows that fragment; and a scheme other than
  \<^verbatim>\<open>s3\<close> is not stripped.
\<close>

theorem cdn_url_legacy_s3_counterexample:
  "cdn_url (Some ''https://cdn.example.com'')
     (stored_image ''s3://my-bucket/products/7/a.png'' ''https://via.placeholder.com/150'')
     = Some ''https://via.placeholder.com/150''
   \<and> cdn_url (Some ''https://cdn.example.com'')
     (stored_image ''s3://my-bucket/products/7/a.png'' ''https://via.placeholder.com/150'')
     \<noteq> Some ''https://cdn.example.com/products/7/a.png''
   \<and> cdn_url (Some ''https://cdn.example.com'')
     (stored_image ''s3://my-bucket/amazonaws.com/a.png'' ''https://old.example.com/a.png'')
     = Some ''https://cdn.example.com/a.png''
   \<and> cdn_url (Some ''https://cdn.example.com'')
     (stored_image ''gs://my-bucket/products/7/a.png'' ''https://old.example.com/a.png'')
     = Some ''https://cdn.example.com/gs://my-bucket/products/7/a.png''"
  by (simp add: cdn_url_def stored_image_def includes_str_def or_else_def split.simps)

text \<open>
  C3. For every record whose url is an absolute HTTP(S) URL that matches the
  pass-through host allowlist (the placeholder and demo image hosts), the resolver
  returns the url of the record, unchanged.
\<close>

theorem cdn_url_passthrough:
  assumes "url r = Some u"
    and "startsWith u ''http://'' \<or> startsWith u ''https://''"
    and "includes_str u ''via.placeholder.com'' \<or> includes_str u ''placeholder.com''
         \<or> includes_str u ''picsum.photos'' \<or> includes_str u ''unsplash.com''
         \<or> includes_str u ''loremflickr.com''"
  shows "cdn_url base r = url r"
proof -
  from assms(2) have "u \<noteq> []"
    by (auto dest: startsWith_nonempty)
  with assms show ?thesis
    unfolding cdn_url_def by simp
qed

theorem cdn_url_passthrough_witness:
  "cdn_url None (stored_image ''products/7/a.png'' ''https://picsum.photos/200/300'')
   = Some ''https://picsum.photos/200/300''"
proof -
  let ?r = "stored_image ''products/7/a.png'' ''https://picsum.photos/200/300''"
  have 1: "url ?r = Some ''https://picsum.photos/200/300''"
    by (simp add: stored_image_def)
  have 2: "startsWith ''https://picsum.photos/200/300'' ''http://''
           \<or> startsWith ''https://picsum.photos/200/300'' ''https://''"
    by simp
  have 3: "includes_str ''https://picsum.photos/200/300'' ''via.placeholder.com''
           \<or> includes_str ''https://picsum.photos/200/300'' ''placeholder.com''
           \<or> includes_str ''https://picsum.photos/200/300'' ''picsum.photos''
           \<or> includes_str ''https://picsum.photos/200/300'' ''unsplash.com''
           \<or> includes_str ''https://picsum.photos/200/300'' ''loremflickr.com''"
    by (simp add: includes_str_def)
  show ?thesis
    using cdn_url_passthrough [OF 1 2 3, of None] by (simp add: stored_image_def)
qed

text \<open>
  C4. The resolver is idempotent: for every record, storing the resolved URL as the url
  of the record and resolving again gives the same result.
\<close>

theorem cdn_url_idempotent:
  "cdn_url base (withUrl r (cdn_url base r)) = cdn_url base r"
proof -
  define P where "P = (\<lambda>v :: string option. truthy v
         \<and> (startsWith (the v) ''http://'' \<or> startsWith (the v) ''https://'')
         \<and> (includes_str (the v) ''via.placeholder.com''
            \<or> includes_str (the v) ''placeholder.com''
            \<or> includes_str (the v) ''picsum.photos''
            \<or> includes_str (the v) ''unsplash.com''
            \<or> includes_str (the v) ''loremflickr.com''))"
  define Q where "Q = (\<lambda>v :: string option. truthy v
         \<and> (startsWith (the v) ''http://'' \<or> startsWith (the v) ''https://'')
         \<and> (includes_str (the v) ''b-cdn.net''
            \<or> includes_str (the v) ''bunnycdn.com''))"
  define F where "F = (\<lambda>k :: string option.
         (let bunnyCDNUrl = or_else base ''https://prestious.b-cdn.net'';
              key = the k;
              imagePath =
                (if includes_str key ''amazonaws.com/''
                 then (let urlParts = split key ''amazonaws.com/''
                       in if length urlParts > 1 then urlParts ! 1 else key)
                 else if includes_str key ''s3://''
                 then join (drop 1 (split (replace key ''s3://'' '''') ''/'')) ''/''
                 else key)
          in Some (bunnyCDNUrl @ ''/'' @ imagePath)))"
  have eq: "cdn_url base x =
      (if P (url x) then url x else if Q (url x) then url x
       else if truthy (s3_key x) then F (s3_key x) else url x)" for x
    unfolding cdn_url_def P_def Q_def F_def by (rule refl)
  show ?thesis
    unfolding eq [of "withUrl r (cdn_url base r)"]
    unfolding eq [of r] withUrl_def
    by simp
qed

section \<open>Properties of the position assignment\<close>

text \<open>
  C1 (the code departs from the claim). Creating three images for a product without
  images, none with a position, gives the positions 0, 0, 0 and not 0, 1, 2: the model
  definition fills in the default position 0 before the hook \<^verbatim>\<open>beforeCreate\<close> runs, so
  the hook leaves the position alone. The hook itself, applied to an image without a
  position, gives 0 for the first image and again 0 for the second one, as
  \<^verbatim>\<open>maxPosition || -1\<close> is \<^verbatim>\<open>-1\<close> when the greatest position is 0. The first image is
  primary.
\<close>

theorem create_three_positions:
  "map_sum id (map position)
     (fst (create_all (\<lambda>u. True) fresh_db
             [new_image ''a.png'', new_image ''b.png'', new_image ''c.png'']))
     = Inr [Some 0, Some 0, Some 0]
   \<and> map_sum id (map isPrimary)
     (fst (create_all (\<lambda>u. True) fresh_db
             [new_image ''a.png'', new_image ''b.png'', new_image ''c.png'']))
     = Inr [True, True, True]
   \<and> position (beforeCreate fresh_db (new_image ''a.png'')) = Some 0
   \<and> max_position (snd (create (\<lambda>u. True) fresh_db (new_image ''a.png''))) (Some 7) = Some 0
   \<and> position (beforeCreate (snd (create (\<lambda>u. True) fresh_db (new_image ''a.png'')))
                  (new_image ''b.png'')) = Some 0"
  by (simp add: fresh_db_def new_image_def create_def build_def beforeValidate_def
      beforeCreate_def validate_def findByPk_def truthy_def Let_def isPrimary_def
      max_position_def)

section \<open>Properties of the storage service\<close>

text \<open>
  C5. \<^verbatim>\<open>isConfigured()\<close> is true if and only if the storage base URL, the public base URL
  and the access credential are all three present and non-empty; it is false as soon as
  one of them is missing or empty.
\<close>

theorem isConfigured_iff:
  "isConfigured this \<longleftrightarrow>
     storageUrl this \<notin> {None, Some ''''}
     \<and> serverBaseUrl this \<notin> {None, Some ''''}
     \<and> accessKey this \<notin> {None, Some ''''}"
  by (auto simp: isConfigured_def truthy_def split: option.splits)

text \<open>The setting with all three present, and the seven settings with one or more missing.\<close>

theorem isConfigured_iff_witness:
  "isConfigured \<lparr>storageUrl = Some ''s'', serverBaseUrl = Some ''p'', accessKey = Some ''k''\<rparr>
   \<and> \<not> isConfigured \<lparr>storageUrl = None, serverBaseUrl = Some ''p'', accessKey = Some ''k''\<rparr>
   \<and> \<not> isConfigured \<lparr>storageUrl = Some ''s'', serverBaseUrl = Some '''', accessKey = Some ''k''\<rparr>
   \<and> \<not> isConfigured \<lparr>storageUrl = Some ''s'', serverBaseUrl = Some ''p'', accessKey = None\<rparr>
   \<and> \<not> isConfigured \<lparr>storageUrl = Some '''', serverBaseUrl = None, accessKey = Some ''k''\<rparr>
   \<and> \<not> isConfigured \<lparr>storageUrl = None, serverBaseUrl = Some ''p'', accessKey = Some ''''\<rparr>
   \<and> \<not> isConfigured \<lparr>storageUrl = Some ''s'', serverBaseUrl = None, accessKey = None\<rparr>
   \<and> \<not> isConfigured \<lparr>storageUrl = None, serverBaseUrl = None, accessKey = None\<rparr>"
  using isConfigured_iff [of "\<lparr>storageUrl = Some ''s'', serverBaseUrl = Some ''p'', accessKey = Some ''k''\<rparr>"]
    isConfigured_iff [of "\<lparr>storageUrl = None, serverBaseUrl = Some ''p'', accessKey = Some ''k''\<rparr>"]
    isConfigured_iff [of "\<lparr>storageUrl = Some ''s'', serverBaseUrl = Some '''', accessKey = Some ''k''\<rparr>"]
    isConfigured_iff [of "\<lparr>storageUrl = Some ''s'', serverBaseUrl = Some ''p'', accessKey = None\<rparr>"]
    isConfigured_iff [of "\<lparr>storageUrl = Some '''', serverBaseUrl = None, accessKey = Some ''k''\<rparr>"]
    isConfigured_iff [of "\<lparr>storageUrl = None, serverBaseUrl = Some ''p'', accessKey = Some ''''\<rparr>"]
    isConfigured_iff [of "\<lparr>storageUrl = Some ''s'', serverBaseUrl = None, accessKey = None\<rparr>"]
    isConfigured_iff [of "\<lparr>storageUrl = None, serverBaseUrl = None, accessKey = None\<rparr>"]
  by simp

subsection \<open>Generated keys\<close>

lemma sanitize_keyChar: "list_all keyChar (sanitize s)"
  by (induction s) (auto simp: sanitize_def keyChar_def)

lemma removeExtension_strips:
  "e \<noteq> [] \<Longrightarrow> CHR ''/'' \<notin> set e \<Longrightarrow> CHR ''.'' \<notin> set e
     \<Longrightarrow> removeExtension (b @ CHR ''.'' # e) = b"
  by (induction b) (auto simp: list_all_iff)

text \<open>
  C6, as amended. For every product id, size variant, extension and optional file name,
  the key is \<^verbatim>\<open>products/{productId}/images/{size}/{base}_{timestamp}_{random}.{extension}\<close>,
  where the base is the sanitised file name, or \<^verbatim>\<open>image\<close> when no file name is given;
  sanitising removes the extension of the file name and replaces, one for one, every
  character outside \<^verbatim>\<open>[A-Za-z0-9-_]\<close> by \<^verbatim>\<open>_\<close>; and the random part is made of the
  characters at the positions 2 to 7 of the base-36 text of the random number, so it
  has at most six characters, and exactly six when that text has eight or more.
\<close>

theorem generateProductImageKey_shape:
  "generateProductImageKey now random36 productId sz extension filename
     = ''products/'' @ dec productId @ ''/images/'' @ sz @ ''/''
         @ (if truthy filename then sanitize (removeExtension (the filename)) else ''image'')
         @ ''_'' @ dec now @ ''_'' @ take 6 (drop 2 random36) @ ''.'' @ extension
   \<and> length (take 6 (drop 2 random36)) \<le> 6
   \<and> (8 \<le> length random36 \<longrightarrow> length (take 6 (drop 2 random36)) = 6)
   \<and> list_all keyChar (sanitize s)
   \<and> length (sanitize s) = length s
   \<and> (\<forall>i < length s. sanitize s ! i = (if keyChar (s ! i) then s ! i else CHR ''_''))
   \<and> (e \<noteq> [] \<and> CHR ''/'' \<notin> set e \<and> CHR ''.'' \<notin> set e
        \<longrightarrow> removeExtension (b @ ''.'' @ e) = b)"
proof -
  have shape: "generateProductImageKey now random36 productId sz extension filename
     = ''products/'' @ dec productId @ ''/images/'' @ sz @ ''/''
         @ (if truthy filename then sanitize (removeExtension (the filename)) else ''image'')
         @ ''_'' @ dec now @ ''_'' @ take 6 (drop 2 random36) @ ''.'' @ extension"
    by (simp add: generateProductImageKey_def substring_def Let_def)
  have len: "length (take 6 (drop 2 random36)) \<le> 6"
    by simp
  have six: "8 \<le> length random36 \<longrightarrow> length (take 6 (drop 2 random36)) = 6"
    by auto
  have pointwise: "\<forall>i < length s. sanitize s ! i = (if keyChar (s ! i) then s ! i else CHR ''_'')"
    by (simp add: sanitize_def)
  have ext: "e \<noteq> [] \<and> CHR ''/'' \<notin> set e \<and> CHR ''.'' \<notin> set e
        \<longrightarrow> removeExtension (b @ ''.'' @ e) = b"
    using removeExtension_strips [of e b] by simp
  have size: "length (sanitize s) = length s"
    by (simp add: sanitize_def)
  from shape len six sanitize_keyChar [of s] size pointwise ext show ?thesis
    by (intro conjI)
qed

theorem generateProductImageKey_shape_witness:
  "generateProductImageKey 1700000000000 ''0.4fzyo82mvyr'' 42 ''thumb'' ''jpg''
     (Some ''my photo.final.png'')
     = ''products/42/images/thumb/my_photo_final_1700000000000_4fzyo8.jpg''
   \<and> 8 \<le> length ''0.4fzyo82mvyr''
   \<and> length (take 6 (drop 2 ''0.4fzyo82mvyr'')) = 6
   \<and> sanitize ''my photo.final'' ! 2 = CHR ''_''
   \<and> removeExtension ''my photo.final.png'' = ''my photo.final''"
  using generateProductImageKey_shape [of 1700000000000 "''0.4fzyo82mvyr''" 42 "''thumb''"
      "''jpg''" "Some ''my photo.final.png''" "''my photo.final''" "''png''" "''my photo.final''"]
  by (simp add: sanitize_def keyChar_def dec.simps)

text \<open>
  The claim as stated fails: when the random number is 0.5, its base-36 text is
  \<^verbatim>\<open>0.i\<close> and the random part of the key has a single character.
\<close>

theorem generateProductImageKey_counterexample:
  "generateProductImageKey 1700000000000 ''0.i'' 42 ''thumb'' ''jpg'' (Some ''my photo.png'')
     = ''products/42/images/thumb/my_photo_1700000000000_i.jpg''
   \<and> length (substring ''0.i'' 2 8) \<noteq> 6"
  by (simp add: generateProductImageKey_def substring_def sanitize_def keyChar_def dec.simps)

subsection \<open>Deleting several keys\<close>

lemma deleteFiles_loop_attempts:
  "deleteFiles_loop c this keys (results, w) = (results', w') \<Longrightarrow>
     successful results' =
       successful results @ map fst (filter (\<lambda>(k, r). \<not> isl r) (attempts c this w keys))
     \<and> failed results' =
       failed results
         @ map (\<lambda>(k, r). (k, projl r)) (filter (\<lambda>(k, r). isl r) (attempts c this w keys))"
proof (induction keys arbitrary: results w)
  case Nil
  then show ?case by simp
next
  case (Cons key keys)
  obtain r w1 where d: "deleteFile c this w key = (r, w1)"
    by (cases "deleteFile c this w key")
  show ?case
  proof (cases r)
    case (Inl message)
    with d Cons.prems
    have "deleteFiles_loop c this keys (results\<lparr>failed := failed results @ [(key, message)]\<rparr>, w1)
            = (results', w')"
      by simp
    from Cons.IH [OF this] d Inl show ?thesis
      by simp
  next
    case (Inr ok)
    with d Cons.prems
    have "deleteFiles_loop c this keys (results\<lparr>successful := successful results @ [key]\<rparr>, w1)
            = (results', w')"
      by simp
    from Cons.IH [OF this] d Inr show ?thesis
      by simp
  qed
qed

lemma attempts_keys: "map fst (attempts c this w keys) = keys"
  by (induction keys arbitrary: w) auto

lemma deleteFile_requests:
  "requests (snd (deleteFile c this w key)) =
     requests w @ (if isConfigured this
                   then [\<lparr>req_method = DELETE, req_url = toStr (storageUrl this) @ ''/'' @ key,
                          req_headers = [(''AccessKey'', accessKey this)], req_body = []\<rparr>]
                   else [])"
  by (simp add: deleteFile_def axios_def Let_def split: http_response.splits)

lemma deleteFiles_loop_requests:
  "requests (snd (deleteFiles_loop c this keys (results, w))) =
     requests w @ (if isConfigured this
                   then map (\<lambda>key. \<lparr>req_method = DELETE,
                                     req_url = toStr (storageUrl this) @ ''/'' @ key,
                                     req_headers = [(''AccessKey'', accessKey this)],
                                     req_body = []\<rparr>) keys
                   else [])"
proof (induction keys arbitrary: results w)
  case Nil
  then show ?case by simp
next
  case (Cons key keys)
  obtain r w1 where d: "deleteFile c this w key = (r, w1)"
    by (cases "deleteFile c this w key")
  with deleteFile_requests [of c this w key]
  have w1: "requests w1 = requests w @ (if isConfigured this
                   then [\<lparr>req_method = DELETE, req_url = toStr (storageUrl this) @ ''/'' @ key,
                          req_headers = [(''AccessKey'', accessKey this)], req_body = []\<rparr>]
                   else [])"
    by simp
  show ?case
    by (cases r) (simp_all add: d Cons.IH w1)
qed

text \<open>
  C7. For every list of keys, \<^verbatim>\<open>deleteFiles\<close> attempts the deletion of every key once, in
  the order of the list: its outcome is that of one \<^verbatim>\<open>deleteFile\<close> call per key, a
  failed call not ending the run, and a configured service sends exactly one DELETE
  request per key, in that order. The result holds the keys whose deletion succeeded
  under \<open>successful\<close> and the others, each with the message of its error, under
  \<open>failed\<close>, both in the order of the list, and no key is lost.
\<close>

theorem deleteFiles_partition:
  "map fst (attempts c this w keys) = keys
   \<and> successful (fst (deleteFiles c this w keys))
       = map fst (filter (\<lambda>(k, r). \<not> isl r) (attempts c this w keys))
   \<and> failed (fst (deleteFiles c this w keys))
       = map (\<lambda>(k, r). (k, projl r)) (filter (\<lambda>(k, r). isl r) (attempts c this w keys))
   \<and> length (successful (fst (deleteFiles c this w keys)))
       + length (failed (fst (deleteFiles c this w keys))) = length keys
   \<and> requests (snd (deleteFiles c this w keys))
       = requests w @ (if isConfigured this
                   then map (\<lambda>key. \<lparr>req_method = DELETE,
                                     req_url = toStr (storageUrl this) @ ''/'' @ key,
                                     req_headers = [(''AccessKey'', accessKey this)],
                                     req_body = []\<rparr>) keys
                   else [])"
proof -
  obtain res w' where run: "deleteFiles c this w keys = (res, w')"
    by (cases "deleteFiles c this w keys")
  then have loop: "deleteFiles_loop c this keys (\<lparr>successful = [], failed = []\<rparr>, w) = (res, w')"
    by (simp add: deleteFiles_def)
  from deleteFiles_loop_attempts [OF loop]
  have s: "successful res = map fst (filter (\<lambda>(k, r). \<not> isl r) (attempts c this w keys))"
    and f: "failed res
              = map (\<lambda>(k, r). (k, projl r)) (filter (\<lambda>(k, r). isl r) (attempts c this w keys))"
    by simp_all
  have "length (successful res) + length (failed res) = length (attempts c this w keys)"
    unfolding s f by (simp add: sum_length_filter_compl case_prod_unfold add.commute)
  also have "\<dots> = length keys"
    using attempts_keys [of c this w keys] by (metis length_map)
  finally have n: "length (successful res) + length (failed res) = length keys" .
  have r: "requests w' = requests w @ (if isConfigured this
                   then map (\<lambda>key. \<lparr>req_method = DELETE,
                                     req_url = toStr (storageUrl this) @ ''/'' @ key,
                                     req_headers = [(''AccessKey'', accessKey this)],
                                     req_body = []\<rparr>) keys
                   else [])"
    using deleteFiles_loop_requests [of c this keys "\<lparr>successful = [], failed = []\<rparr>" w] loop
    by simp
  from attempts_keys s f n r show ?thesis
    by (simp add: run)
qed

text \<open>The keys \<open>a\<close>, \<open>b\<close>, \<open>c\<close>, where the deletion of \<open>b\<close> fails.\<close>

theorem deleteFiles_partition_witness:
  "successful (fst (deleteFiles all_but_b example_service empty_world [''a'', ''b'', ''c'']))
     = [''a'', ''c'']
   \<and> failed (fst (deleteFiles all_but_b example_service empty_world [''a'', ''b'', ''c'']))
     = [(''b'', ''Bunny CDN delete failed: Request failed with status code 404'')]
   \<and> map req_url
        (requests (snd (deleteFiles all_but_b example_service empty_world [''a'', ''b'', ''c''])))
     = [''https://storage.bunnycdn.com/shop/a'', ''https://storage.bunnycdn.com/shop/b'',
        ''https://storage.bunnycdn.com/shop/c'']"
  using deleteFiles_partition [of all_but_b example_service empty_world "[''a'', ''b'', ''c'']"]
  by (simp add: all_but_b_def example_service_def empty_world_def deleteFile_def axios_def
      isConfigured_def toStr_def)

section \<open>Properties of the migration job\<close>

lemma testConnection_frame:
  "db (snd (testConnection c this w)) = db w"
  "statements (snd (testConnection c this w)) = statements w"
  "requests (snd (testConnection c this w)) =
     requests w @ (if isConfigured this
                   then [\<lparr>req_method = GET, req_url = toStr (storageUrl this) @ ''/'',
                          req_headers = [(''AccessKey'', accessKey this)], req_body = []\<rparr>]
                   else [])"
  by (simp_all add: testConnection_def axios_def Let_def split: http_response.splits)

lemma query_read:
  "db_fault c (statements w) st = None \<Longrightarrow>
     query c st (\<lambda>d. (f d, d)) w = (Inr (f (db w)), w\<lparr>statements := statements w @ [st]\<rparr>)"
  by (simp add: query_def)

text \<open>
  C8. In every run of the migration job in which the storage probe reports failure, the
  job stops at the probe: it returns without issuing any database statement, so neither
  the inventory nor the purge is executed and the database is unchanged; the only
  request it has sent is the probe.
\<close>

theorem migrate_probe_failure:
  assumes "\<not> success (fst (testConnection c this w))"
  shows "fst (migrateToBunnyCDN c this w) = Returned
    \<and> db (snd (migrateToBunnyCDN c this w)) = db w
    \<and> statements (snd (migrateToBunnyCDN c this w)) = statements w
    \<and> requests (snd (migrateToBunnyCDN c this w)) =
        requests w @ (if isConfigured this
                   then [\<lparr>req_method = GET, req_url = toStr (storageUrl this) @ ''/'',
                          req_headers = [(''AccessKey'', accessKey this)], req_body = []\<rparr>]
                   else [])"
proof (cases "isConfigured this")
  case False
  then show ?thesis
    by (simp add: migrateToBunnyCDN_def)
next
  case True
  obtain t w1 where t: "testConnection c this w = (t, w1)"
    by (cases "testConnection c this w")
  with assms have "\<not> success t"
    by simp
  with True t have "migrateToBunnyCDN c this w = (Returned, w1)"
    by (simp add: migrateToBunnyCDN_def)
  with testConnection_frame [of c this w] t True show ?thesis
    by simp
qed

text \<open>A configured service whose endpoint answers the probe with status 401.\<close>

theorem migrate_probe_failure_witness:
  "\<not> success (fst (testConnection unauthorized example_service stocked_world))
   \<and> conn_status (fst (testConnection unauthorized example_service stocked_world)) = Some 401
   \<and> fst (migrateToBunnyCDN unauthorized example_service stocked_world) = Returned
   \<and> db (snd (migrateToBunnyCDN unauthorized example_service stocked_world)) = db stocked_world
   \<and> length (images (db (snd (migrateToBunnyCDN unauthorized example_service stocked_world)))) = 1
   \<and> statements (snd (migrateToBunnyCDN unauthorized example_service stocked_world)) = []
   \<and> map req_method (requests (snd (migrateToBunnyCDN unauthorized example_service stocked_world)))
       = [GET]"
proof -
  have probe: "\<not> success (fst (testConnection unauthorized example_service stocked_world))"
    by (simp add: testConnection_def unauthorized_def example_service_def isConfigured_def
        axios_def)
  have status:
    "conn_status (fst (testConnection unauthorized example_service stocked_world)) = Some 401"
    by (simp add: testConnection_def unauthorized_def example_service_def isConfigured_def
        axios_def)
  have conf: "isConfigured example_service"
    by (simp add: example_service_def isConfigured_def)
  have w: "statements stocked_world = []" "requests stocked_world = []"
    "length (images (db stocked_world)) = 1"
    by (simp_all add: stocked_world_def)
  from migrate_probe_failure [OF probe] probe status conf w show ?thesis
    by simp
qed

text \<open>
  C9. In every run of the migration job in which the metadata store is empty and the
  inventory is reached and completes (the service is configured, the probe succeeds and
  the two counting statements raise no error), the job returns normally after the
  inventory: the purge is not issued, no write or delete request is sent to the storage
  endpoint, and the database is unchanged.
\<close>

theorem migrate_empty_store:
  assumes empty: "images (db w) = []"
    and conf: "isConfigured this"
    and probe: "success (fst (testConnection c this w))"
    and ok1: "db_fault c (statements w) CountImages = None"
    and ok2: "db_fault c (statements w @ [CountImages]) CountProducts = None"
  shows "fst (migrateToBunnyCDN c this w) = Returned
    \<and> db (snd (migrateToBunnyCDN c this w)) = db w
    \<and> statements (snd (migrateToBunnyCDN c this w)) = statements w @ [CountImages, CountProducts]
    \<and> requests (snd (migrateToBunnyCDN c this w)) =
        requests w @ [\<lparr>req_method = GET, req_url = toStr (storageUrl this) @ ''/'',
                          req_headers = [(''AccessKey'', accessKey this)], req_body = []\<rparr>]"
proof -
  obtain t w1 where t: "testConnection c this w = (t, w1)"
    by (cases "testConnection c this w")
  with probe have st: "success t"
    by simp
  from testConnection_frame [of c this w] t conf
  have w1: "db w1 = db w" "statements w1 = statements w"
    "requests w1 = requests w @ [\<lparr>req_method = GET, req_url = toStr (storageUrl this) @ ''/'',
                          req_headers = [(''AccessKey'', accessKey this)], req_body = []\<rparr>]"
    by simp_all
  let ?w2 = "w1\<lparr>statements := statements w1 @ [CountImages]\<rparr>"
  have c1: "ProductImage_count c w1 = (Inr 0, ?w2)"
    using ok1 empty w1 by (simp add: ProductImage_count_def query_read)
  let ?w3 = "w1\<lparr>statements := statements w1 @ [CountImages, CountProducts]\<rparr>"
  have c2: "Product_count c ?w2 = (Inr 0, ?w3)"
    using ok2 empty w1 by (simp add: Product_count_def query_read)
  have "migrateToBunnyCDN c this w = (Returned, ?w3)"
    using conf st by (simp add: migrateToBunnyCDN_def t c1 attempt_def c2)
  with w1 show ?thesis
    by simp
qed

text \<open>A configured service, a reachable endpoint and a database without images.\<close>

theorem migrate_empty_store_witness:
  "images (db empty_world) = []
   \<and> isConfigured example_service
   \<and> success (fst (testConnection all_but_b example_service empty_world))
   \<and> fst (migrateToBunnyCDN all_but_b example_service empty_world) = Returned
   \<and> db (snd (migrateToBunnyCDN all_but_b example_service empty_world)) = fresh_db
   \<and> statements (snd (migrateToBunnyCDN all_but_b example_service empty_world))
       = [CountImages, CountProducts]
   \<and> map req_method (requests (snd (migrateToBunnyCDN all_but_b example_service empty_world)))
       = [GET]"
proof -
  have empty: "images (db empty_world) = []"
    by (simp add: empty_world_def fresh_db_def)
  have conf: "isConfigured example_service"
    by (simp add: example_service_def isConfigured_def)
  have probe: "success (fst (testConnection all_but_b example_service empty_world))"
    by (simp add: testConnection_def all_but_b_def example_service_def isConfigured_def
        axios_def)
  have ok1: "db_fault all_but_b (statements empty_world) CountImages = None"
    by (simp add: all_but_b_def)
  have ok2: "db_fault all_but_b (statements empty_world @ [CountImages]) CountProducts = None"
    by (simp add: all_but_b_def)
  have w: "db empty_world = fresh_db" "statements empty_world = []" "requests empty_world = []"
    by (simp_all add: empty_world_def)
  from migrate_empty_store [OF empty conf probe ok1 ok2] empty conf probe w show ?thesis
    by simp
qed

text \<open>
  A populated store, for comparison: the purge is issued and empties the table, and the
  upload test and its clean-up follow.
\<close>

lemma migrate_populated_store:
  "fst (migrateToBunnyCDN all_but_b example_service stocked_world) = Returned
   \<and> images (db (snd (migrateToBunnyCDN all_but_b example_service stocked_world))) = []
   \<and> statements (snd (migrateToBunnyCDN all_but_b example_service stocked_world))
       = [CountImages, CountProducts, FindAllImages, DestroyImages, CountImages, CountProducts]
   \<and> map req_method (requests (snd (migrateToBunnyCDN all_but_b example_service stocked_world)))
       = [GET, PUT, DELETE]"
  by (simp add: migrateToBunnyCDN_def testConnection_def uploadFile_def deleteFile_def
      axios_def attempt_def query_def ProductImage_count_def Product_count_def
      ProductImage_findAll_def ProductImage_destroy_def all_but_b_def example_service_def
      stocked_world_def stored_image_def isConfigured_def toStr_def findByPk_def)

end
